theory Spec2Isabelle
  imports Complex_Main "HOL-Library.AList" "HOL-Library.Multiset"
begin

section \<open>Data model\<close>

text \<open>
  Conventions of the embedding.
  \<^item> A Python \<open>dict\<close> is an association list with unique keys in insertion order:
    \<open>d[k] = v\<close> is \<open>AList.update\<close> (replace in place, or append), \<open>del d[k]\<close> is
    \<open>AList.delete\<close>, \<open>d.get(k)\<close> is \<open>map_of\<close>.
  \<^item> A Python \<open>float\<close> is a \<open>real\<close> (exact arithmetic; rounding is not modelled).
  \<^item> Counters that start at 0 and are only incremented are \<open>nat\<close>.
  \<^item> A reading of \<open>datetime.now()\<close> is a \<open>timestamp\<close> handed to the operation, and the
    elapsed time an operation measures is handed to it as \<open>response_time\<close>.
  \<^item> An \<open>async\<close> method is the function it computes; a raised exception is \<open>Inl\<close>
    of its \<open>str\<close>.
\<close>

type_synonym timestamp = nat

datatype pyval = PBool bool | PStr string

fun truthy :: "pyval \<Rightarrow> bool" where
  "truthy (PBool b) = b"
| "truthy (PStr s) = (s \<noteq> [])"

datatype QueryType = TROUBLESHOOTING | COMPARISON | GENERAL_INQUIRY | CONFIGURATION | PERFORMANCE


type_synonym pydict = "(string \<times> string) list"

record QueryContext =
  user_id :: string
  thread_id :: string
  query :: string
  language :: string
  query_type :: QueryType
  confidence_score :: real
  domain_relevance :: real
  session_history :: "pydict list"
  user_preferences :: "(string \<times> pyval) list"

record ToolMetadata =
  md_name :: string
  md_description :: string
  md_category :: string
  version :: string
  author :: string
  created_at :: timestamp
  last_used :: "timestamp option"
  usage_count :: nat
  success_rate :: real
  average_response_time :: real

record ToolResult =
  tool_name :: string
  success :: bool
  results :: "pydict list"
  sources :: "string list"
  confidence :: real
  response_time :: real
  error_message :: "string option"
  result_metadata :: "pydict option"

text \<open>
  A tool object: the three attributes, its own metadata, and its two methods.
  \<open>validate_input\<close> returns a bool (as every implementation in the repository does);
  \<open>execute\<close> returns a result or raises.
\<close>

record BaseTool =
  name :: string
  description :: string
  category :: string
  metadata :: ToolMetadata
  validate_input :: "string \<Rightarrow> QueryContext \<Rightarrow> bool"
  execute :: "string \<Rightarrow> QueryContext \<Rightarrow> string + ToolResult"

text \<open>One entry of \<open>ToolRegistry.tool_performance\<close>.\<close>

record PerformanceRecord =
  total_calls :: nat
  successful_calls :: nat
  failed_calls :: nat
  perf_average_response_time :: real
  perf_last_used :: "timestamp option"
  error_patterns :: "(string \<times> timestamp) list"

record ToolRegistry =
  tools :: "(string \<times> BaseTool) list"
  tool_categories :: "(string \<times> string list) list"
  tool_performance :: "(string \<times> PerformanceRecord) list"

section \<open>BaseTool\<close>

text \<open>\<open>BaseTool.__init__\<close>: the metadata a tool starts with.\<close>

definition initial_metadata :: "string \<Rightarrow> string \<Rightarrow> string \<Rightarrow> timestamp \<Rightarrow> ToolMetadata" where
  "initial_metadata n d c now =
     \<lparr>md_name = n, md_description = d, md_category = c, version = ''1.0.0'',
      author = ''System'', created_at = now, last_used = None, usage_count = 0,
      success_rate = 0, average_response_time = 0\<rparr>"

text \<open>\<open>BaseTool.update_metrics\<close>.\<close>

definition update_metrics :: "BaseTool \<Rightarrow> bool \<Rightarrow> real \<Rightarrow> timestamp \<Rightarrow> BaseTool" where
  "update_metrics tool succ rt now =
     (let md = metadata tool;
          n = usage_count md + 1;
          sr = (if n = 1 then (if succ then 1 else 0)
                else (let current_successes = success_rate md * real (n - 1);
                          current_successes' =
                            (if succ then current_successes + 1 else current_successes)
                      in current_successes' / real n));
          avg = (if n = 1 then rt
                 else (let total_time = average_response_time md * real (n - 1)
                       in (total_time + rt) / real n))
      in tool\<lparr>metadata := md\<lparr>usage_count := n, last_used := Some now,
                                success_rate := sr, average_response_time := avg\<rparr>\<rparr>)"

section \<open>ToolRegistry: registration\<close>

definition empty_registry :: ToolRegistry where
  "empty_registry = \<lparr>tools = [], tool_categories = [], tool_performance = []\<rparr>"

definition fresh_performance :: PerformanceRecord where
  "fresh_performance =
     \<lparr>total_calls = 0, successful_calls = 0, failed_calls = 0,
      perf_average_response_time = 0, perf_last_used = None, error_patterns = []\<rparr>"

text \<open>
  \<open>register_tool\<close>. The bucket of the tool's category is created when missing and the
  name appended when not yet in it; nothing is done to the other buckets.
\<close>

definition register_tool :: "ToolRegistry \<Rightarrow> BaseTool \<Rightarrow> ToolRegistry \<times> bool" where
  "register_tool reg tool =
     (let tools' = AList.update (name tool) tool (tools reg);
          cats = tool_categories reg;
          cats1 = (if map_of cats (category tool) = None
                   then AList.update (category tool) [] cats else cats);
          bucket = (case map_of cats1 (category tool) of None \<Rightarrow> [] | Some ns \<Rightarrow> ns);
          cats2 = (if name tool \<notin> set bucket
                   then AList.update (category tool) (bucket @ [name tool]) cats1 else cats1);
          perf' = AList.update (name tool) fresh_performance (tool_performance reg)
      in (\<lparr>tools = tools', tool_categories = cats2, tool_performance = perf'\<rparr>, True))"

text \<open>
  \<open>unregister_tool\<close>. Only the bucket of the category the stored tool has now is
  touched; \<open>list.remove\<close> deletes the first occurrence.
\<close>

definition unregister_tool :: "ToolRegistry \<Rightarrow> string \<Rightarrow> ToolRegistry \<times> bool" where
  "unregister_tool reg tname =
     (case map_of (tools reg) tname of
        None \<Rightarrow> (reg, False)
      | Some tool \<Rightarrow>
          (let tools' = AList.delete tname (tools reg);
               cats = tool_categories reg;
               cats' =
                 (case map_of cats (category tool) of
                    None \<Rightarrow> cats
                  | Some ns \<Rightarrow>
                      (let ns' = (if tname \<in> set ns then remove1 tname ns else ns);
                           cats1 = AList.update (category tool) ns' cats
                       in if ns' = [] then AList.delete (category tool) cats1 else cats1));
               perf' = (if map_of (tool_performance reg) tname \<noteq> None
                        then AList.delete tname (tool_performance reg)
                        else tool_performance reg)
           in (\<lparr>tools = tools', tool_categories = cats', tool_performance = perf'\<rparr>, True)))"

definition get_tool :: "ToolRegistry \<Rightarrow> string \<Rightarrow> BaseTool option" where
  "get_tool reg tname = map_of (tools reg) tname"


definition list_all_tools :: "ToolRegistry \<Rightarrow> string list" where
  "list_all_tools reg = map fst (tools reg)"

section \<open>ToolRegistry: execution and bookkeeping\<close>

text \<open>\<open>xs[-10:]\<close>\<close>

definition last10 :: "'a list \<Rightarrow> 'a list" where
  "last10 xs = drop (length xs - 10) xs"

text \<open>
  \<open>_update_performance_tracking\<close>; \<open>error_message\<close> defaults to \<open>None\<close>, and
  \<open>if error_message:\<close> is false for \<open>None\<close> and for the empty string.
\<close>

definition update_performance_tracking ::
  "ToolRegistry \<Rightarrow> string \<Rightarrow> bool \<Rightarrow> real \<Rightarrow> string option \<Rightarrow> timestamp \<Rightarrow> ToolRegistry" where
  "update_performance_tracking reg tname succ rt err now =
     (case map_of (tool_performance reg) tname of
        None \<Rightarrow> reg
      | Some perf \<Rightarrow>
          (let n = total_calls perf + 1;
               p1 = perf\<lparr>total_calls := n, perf_last_used := Some now\<rparr>;
               p2 = (if succ then p1\<lparr>successful_calls := successful_calls p1 + 1\<rparr>
                     else (let p1' = p1\<lparr>failed_calls := failed_calls p1 + 1\<rparr>
                           in (case err of
                                 None \<Rightarrow> p1'
                               | Some msg \<Rightarrow>
                                   if msg \<noteq> []
                                   then p1'\<lparr>error_patterns :=
                                              last10 (error_patterns p1' @ [(msg, now)])\<rparr>
                                   else p1')));
               avg = (if n = 1 then rt
                      else (let total_time = perf_average_response_time p2 * real (n - 1)
                            in (total_time + rt) / real n));
               p3 = p2\<lparr>perf_average_response_time := avg\<rparr>
           in reg\<lparr>tool_performance := AList.update tname p3 (tool_performance reg)\<rparr>))"

definition failed_result :: "string \<Rightarrow> real \<Rightarrow> string \<Rightarrow> ToolResult" where
  "failed_result tname rt msg =
     \<lparr>tool_name = tname, success = False, results = [], sources = [], confidence = 0,
      response_time = rt, error_message = Some msg, result_metadata = None\<rparr>"

text \<open>
  \<open>execute_tool\<close>. \<open>rt\<close> is the elapsed time the method measures around the call and
  \<open>now\<close> the clock reading used for the \<open>last_used\<close> stamps. The tool object is shared
  with the registry, so its updated metadata is written back under its key.
\<close>

definition execute_tool ::
  "ToolRegistry \<Rightarrow> string \<Rightarrow> string \<Rightarrow> QueryContext \<Rightarrow> real \<Rightarrow> timestamp
     \<Rightarrow> ToolRegistry \<times> ToolResult" where
  "execute_tool reg tname q ctx rt now =
     (case map_of (tools reg) tname of
        None \<Rightarrow> (reg, failed_result tname 0 (''Tool '' @ tname @ '' not found''))
      | Some tool \<Rightarrow>
          if \<not> validate_input tool q ctx
          then (reg, failed_result tname 0 ''Input validation failed'')
          else (case execute tool q ctx of
                  Inr result \<Rightarrow>
                    (let tool' = update_metrics tool (success result) rt now;
                         reg1 = reg\<lparr>tools := AList.update tname tool' (tools reg)\<rparr>;
                         reg2 = update_performance_tracking reg1 tname (success result) rt None now
                     in (reg2, result))
                | Inl e \<Rightarrow>
                    (let tool' = update_metrics tool False rt now;
                         reg1 = reg\<lparr>tools := AList.update tname tool' (tools reg)\<rparr>;
                         reg2 = update_performance_tracking reg1 tname False rt (Some e) now
                     in (reg2, failed_result tname rt e))))"


section \<open>Python string and list primitives\<close>



definition is_space :: "char \<Rightarrow> bool" where
  "is_space c = (let n = (of_char c :: nat) in n = 32 \<or> (9 \<le> n \<and> n \<le> 13) \<or> (28 \<le> n \<and> n \<le> 31))"

fun split_from :: "string \<Rightarrow> string \<Rightarrow> string list" where
  "split_from cur [] = (if cur = [] then [] else [cur])"
| "split_from cur (c # cs) =
     (if is_space c then (if cur = [] then split_from [] cs else cur # split_from [] cs)
      else split_from (cur @ [c]) cs)"

definition split :: "string \<Rightarrow> string list" where
  "split s = split_from [] s"

text \<open>\<open>sep.join(xs)\<close>\<close>

fun join :: "string \<Rightarrow> string list \<Rightarrow> string" where
  "join sep [] = []"
| "join sep [x] = x"
| "join sep (x # y # ys) = x @ sep @ join sep (y # ys)"



section \<open>ToolRegistry: selection strategies\<close>















section \<open>AgentOrchestrator: data\<close>

text \<open>
  An entry of the \<open>results\<close> dict of \<open>_execute_tools_parallel\<close>: what the tool returned,
  or the placeholder \<open>{"error": str(e), "success": False}\<close>. The orchestrator reads
  entries with \<open>.get\<close>, as the mapping that the \<open>Tool\<close> protocol declares for \<open>execute\<close>;
  the fields of a returned result are read as the keys of that mapping.
\<close>

datatype tool_entry = Completed ToolResult | Failed string

fun entry_success :: "tool_entry \<Rightarrow> bool" where
  "entry_success (Completed r) = success r"
| "entry_success (Failed e) = False"

fun entry_results :: "tool_entry \<Rightarrow> pydict list" where
  "entry_results (Completed r) = results r"
| "entry_results (Failed e) = []"

fun entry_sources :: "tool_entry \<Rightarrow> string list" where
  "entry_sources (Completed r) = sources r"
| "entry_sources (Failed e) = []"

text \<open>
  \<open>sources=list(set(sources))\<close> has no specified order, so the field is a set.
\<close>

record AgentResponse =
  content :: string
  response_confidence :: real
  response_sources :: "string set"
  tool_results :: "(string \<times> tool_entry) list"
  processing_time :: real
  response_language :: string
  requires_clarification :: bool
  clarification_questions :: "string list option"

text \<open>
  The orchestrator object: its registry, its configuration, and the methods of its
  collaborators that the processing loop calls. \<open>QualityAssessor\<close> is not part of the
  sources and the translator calls an external service, so their methods are fields.
  \<open>finish_time orch n q\<close> is the time, counted from the start of the collection loop,
  at which the worker pool finishes the call of tool \<open>n\<close> on query \<open>q\<close>.
\<close>

record AgentOrchestrator =
  tool_registry :: ToolRegistry
  max_workers :: nat
  task_timeout :: nat
  domain_relevance_threshold :: real
  confidence_threshold :: real
  max_iterations :: nat
  assess_results :: "string \<Rightarrow> (string \<times> tool_entry) list \<Rightarrow> real"
  calculate_confidence :: "string \<Rightarrow> string \<Rightarrow> pydict list \<Rightarrow> real"
  identify_missing_information :: "string \<Rightarrow> (string \<times> tool_entry) list \<Rightarrow> string list"
  translate_from_english :: "string \<Rightarrow> string \<Rightarrow> string"
  finish_time :: "string \<Rightarrow> string \<Rightarrow> nat"

text \<open>
  The exception of \<open>as_completed\<close>, with the two numbers of its message
  \<open>"%d (of %d) futures unfinished"\<close>: the futures still pending and all futures.
\<close>

datatype error = TimeoutError nat nat

section \<open>AgentOrchestrator: tool selection and parallel execution\<close>

text \<open>\<open>context.user_preferences.get(key, default)\<close>, read for its truth value.\<close>

definition preference_enabled :: "QueryContext \<Rightarrow> string \<Rightarrow> bool \<Rightarrow> bool" where
  "preference_enabled ctx key dflt =
     (case map_of (user_preferences ctx) key of None \<Rightarrow> dflt | Some v \<Rightarrow> truthy v)"

text \<open>\<open>AgentOrchestrator._select_tools\<close>; it reads the context only.\<close>

definition orchestrator_select_tools :: "QueryContext \<Rightarrow> string list" where
  "orchestrator_select_tools ctx =
     (let tool_selection = [];
          tool_selection = tool_selection @ [''vector_search''];
          tool_selection =
            (if preference_enabled ctx ''web_search_enabled'' True
             then tool_selection @ [''web_search''] else tool_selection);
          tool_selection = tool_selection @ [''rerank''];
          tool_selection =
            (if query_type ctx = TROUBLESHOOTING
             then tool_selection @ [''error_analyzer'', ''solution_finder'']
             else if query_type ctx = COMPARISON
             then tool_selection @ [''service_comparator'', ''feature_analyzer'']
             else if query_type ctx = PERFORMANCE
             then tool_selection @ [''performance_analyzer'', ''optimization_advisor'']
             else tool_selection)
      in tool_selection)"

text \<open>
  The collection loop of \<open>_execute_tools_parallel\<close>: each completed future stores the
  result of its tool, or the error placeholder when the tool raised.
\<close>

fun collect_results ::
  "(nat \<times> string \<times> (string + ToolResult)) list \<Rightarrow> (string \<times> tool_entry) list
     \<Rightarrow> (string \<times> tool_entry) list" where
  "collect_results [] res = res"
| "collect_results ((d, n, out) # fs) res =
     collect_results fs
       (AList.update n (case out of Inr r \<Rightarrow> Completed r | Inl e \<Rightarrow> Failed e) res)"

text \<open>
  \<open>_execute_tools_parallel\<close>. Every name that \<open>get_tool\<close> resolves is submitted.
  \<open>as_completed(..., timeout=self.task_timeout)\<close> yields the futures in the order in
  which they finish and raises \<open>TimeoutError\<close> when the timeout passes while a future is
  still pending; the \<open>for\<close> statement is outside every \<open>try\<close>, so that exception leaves
  the method and the entries collected so far are lost with it.
\<close>

definition execute_tools_parallel ::
  "AgentOrchestrator \<Rightarrow> QueryContext \<Rightarrow> string list \<Rightarrow> error + (string \<times> tool_entry) list" where
  "execute_tools_parallel orch context tool_names =
     (let submitted =
            List.map_filter
              (\<lambda>n. map_option (\<lambda>t. (n, t)) (get_tool (tool_registry orch) n)) tool_names;
          futures =
            map (\<lambda>(n, t). (finish_time orch n (query context), n,
                           execute t (query context) context)) submitted;
          pending = filter (\<lambda>f. task_timeout orch < fst f) futures
      in if pending \<noteq> [] then Inl (TimeoutError (length pending) (length futures))
         else Inr (collect_results (sort_key fst futures) []))"

section \<open>AgentOrchestrator: response synthesis\<close>

definition nl :: string where
  "nl = [CHR 0x0A]"

definition apos :: string where
  "apos = [CHR 0x27]"

definition get_str :: "pydict \<Rightarrow> string \<Rightarrow> string" where
  "get_str d k = (case map_of d k of None \<Rightarrow> [] | Some v \<Rightarrow> v)"

definition get_default :: "pydict \<Rightarrow> string \<Rightarrow> string \<Rightarrow> string" where
  "get_default d k dflt = (case map_of d k of None \<Rightarrow> dflt | Some v \<Rightarrow> v)"

fun str_nat :: "nat \<Rightarrow> string" where
  "str_nat n =
     (if n < 10 then [char_of (48 + n)] else str_nat (n div 10) @ [char_of (48 + n mod 10)])"

declare str_nat.simps [simp del]

text \<open>\<open>for i, result in enumerate(results[:5], 1): if result.get("content"): ...\<close>\<close>

fun numbered_steps :: "nat \<Rightarrow> pydict list \<Rightarrow> string list" where
  "numbered_steps i [] = []"
| "numbered_steps i (r # rs) =
     (if get_str r ''content'' \<noteq> []
      then [str_nat i @ ''. '' @ get_str r ''content'' @ nl] else [])
     @ numbered_steps (Suc i) rs"

definition generate_no_results_response :: "QueryContext \<Rightarrow> string" where
  "generate_no_results_response ctx =
     ''I couldn'' @ apos @ ''t find specific information about your query in my knowledge base. ''
     @ ''This might be a very specific or new issue. Could you provide more details ''
     @ ''or try rephrasing your question?''"

definition generate_troubleshooting_response :: "QueryContext \<Rightarrow> pydict list \<Rightarrow> string" where
  "generate_troubleshooting_response ctx rs =
     concat
       ([''# Cloud Services Troubleshooting Guide'' @ nl,
         ''Based on your query: '' @ apos @ query ctx @ apos @ nl @ nl,
         ''## Troubleshooting Steps:'' @ nl]
        @ numbered_steps 1 (take 5 rs)
        @ [nl @ ''## Additional Resources:'' @ nl]
        @ map (\<lambda>r. ''- ['' @ get_default r ''title'' ''Resource'' @ '']('' @ get_str r ''url''
                     @ '')'' @ nl)
            (filter (\<lambda>r. get_str r ''url'' \<noteq> []) rs))"

definition generate_comparison_response :: "QueryContext \<Rightarrow> pydict list \<Rightarrow> string" where
  "generate_comparison_response ctx rs =
     concat
       ([''# Cloud Services Comparison'' @ nl,
         ''Comparing services for: '' @ apos @ query ctx @ apos @ nl @ nl,
         ''## Service Comparison:'' @ nl]
        @ concat (map (\<lambda>r. [''### '' @ get_default r ''service'' ''Service'' @ nl,
                            get_str r ''content'' @ nl @ nl])
                    (filter (\<lambda>r. get_str r ''content'' \<noteq> []) (take 3 rs))))"

definition generate_general_response :: "QueryContext \<Rightarrow> pydict list \<Rightarrow> string" where
  "generate_general_response ctx rs =
     concat
       ([''# Cloud Services Information'' @ nl,
         ''Information about: '' @ apos @ query ctx @ apos @ nl @ nl]
        @ map (\<lambda>r. ''- '' @ get_str r ''content'' @ nl)
            (filter (\<lambda>r. get_str r ''content'' \<noteq> []) (take 5 rs)))"

definition generate_configuration_response :: "QueryContext \<Rightarrow> pydict list \<Rightarrow> string" where
  "generate_configuration_response ctx rs =
     concat
       ([''# Cloud Service Configuration Guide'' @ nl,
         ''Configuration steps for: '' @ apos @ query ctx @ apos @ nl @ nl,
         ''## Configuration Steps:'' @ nl]
        @ numbered_steps 1 (take 5 rs)
        @ [nl @ ''## Best Practices:'' @ nl,
           ''- Always backup your configuration before making changes'' @ nl,
           ''- Test changes in a development environment first'' @ nl,
           ''- Monitor performance after configuration changes'' @ nl])"

definition generate_response_content :: "QueryContext \<Rightarrow> pydict list \<Rightarrow> string" where
  "generate_response_content ctx rs =
     (if rs = [] then generate_no_results_response ctx
      else if query_type ctx = TROUBLESHOOTING then generate_troubleshooting_response ctx rs
      else if query_type ctx = COMPARISON then generate_comparison_response ctx rs
      else if query_type ctx = CONFIGURATION then generate_configuration_response ctx rs
      else generate_general_response ctx rs)"

text \<open>\<open>_synthesize_response\<close>: the candidate response of an iteration.\<close>

definition synthesize_response ::
  "AgentOrchestrator \<Rightarrow> QueryContext \<Rightarrow> (string \<times> tool_entry) list \<Rightarrow> AgentResponse" where
  "synthesize_response orch ctx trs =
     (let successful = filter (\<lambda>(n, e). entry_success e) trs;
          combined_results = concat (map (\<lambda>(n, e). entry_results e) successful);
          srcs = concat (map (\<lambda>(n, e). entry_sources e) successful);
          combined_results =
            (case map_of trs ''rerank'' of
               None \<Rightarrow> combined_results
             | Some e \<Rightarrow> if entry_success e then entry_results e else combined_results);
          response_content = generate_response_content ctx combined_results;
          conf = calculate_confidence orch (query ctx) response_content combined_results;
          response_content =
            (if language ctx \<noteq> ''en''
             then translate_from_english orch response_content (language ctx)
             else response_content)
      in \<lparr>content = response_content, response_confidence = conf,
          response_sources = set srcs, tool_results = trs, processing_time = 0,
          response_language = language ctx, requires_clarification = False,
          clarification_questions = None\<rparr>)"

text \<open>\<open>_refine_query\<close>: the new query string.\<close>

definition refine_query ::
  "AgentOrchestrator \<Rightarrow> QueryContext \<Rightarrow> (string \<times> tool_entry) list \<Rightarrow> string" where
  "refine_query orch ctx trs =
     (let missing_aspects = identify_missing_information orch (query ctx) trs
      in query ctx @ '' '' @ join '' '' missing_aspects)"

definition fallback_text :: string where
  "fallback_text =
     ''I'' @ apos @ ''m having difficulty providing a comprehensive answer to your query. ''
     @ ''Could you please provide more specific details about your cloud service issue?''"

text \<open>\<open>_create_fallback_response\<close>\<close>

definition create_fallback_response :: "AgentOrchestrator \<Rightarrow> QueryContext \<Rightarrow> AgentResponse" where
  "create_fallback_response orch ctx =
     (let c = fallback_text;
          c = (if language ctx \<noteq> ''en'' then translate_from_english orch c (language ctx) else c)
      in \<lparr>content = c, response_confidence = 0.3, response_sources = {}, tool_results = [],
          processing_time = 0, response_language = language ctx,
          requires_clarification = True, clarification_questions = None\<rparr>)"

section \<open>AgentOrchestrator: the iterative processing loop\<close>

text \<open>
  The \<open>QueryContext\<close> is an object that the caller and the loop share, so it lives in a
  store under an address. The state of a run is the store together with the two local
  variables of \<open>_iterative_processing_loop\<close>.
\<close>

type_synonym addr = nat

record loop_state =
  heap :: "addr \<Rightarrow> QueryContext"
  iteration :: nat
  best_response :: "AgentResponse option"

text \<open>
  How a run ends: by the \<open>return response\<close> inside the loop, by the \<open>return\<close> after the
  loop, or by an exception that leaves it.
\<close>

datatype loop_exit = Accepted AgentResponse | Exhausted AgentResponse | Raised error

function processing_loop ::
  "AgentOrchestrator \<Rightarrow> addr \<Rightarrow> loop_state \<Rightarrow> loop_state \<times> loop_exit" where
  "processing_loop orch a st =
     (if iteration st < max_iterations orch then
        (let st1 = st\<lparr>iteration := iteration st + 1\<rparr>;
             context = heap st1 a;
             selected_tools = orchestrator_select_tools context
         in case execute_tools_parallel orch context selected_tools of
              Inl e \<Rightarrow> (st1, Raised e)
            | Inr trs \<Rightarrow>
                (let quality_score = assess_results orch (query context) trs;
                     response = synthesize_response orch context trs
                 in if quality_score \<ge> confidence_threshold orch then (st1, Accepted response)
                    else
                      (let st2 =
                             (if (case best_response st1 of
                                    None \<Rightarrow> True
                                  | Some b \<Rightarrow> quality_score > response_confidence b)
                              then st1\<lparr>best_response := Some response\<rparr> else st1);
                           refined = refine_query orch context trs;
                           st3 = st2\<lparr>heap := (heap st2)(a := context\<lparr>query := refined\<rparr>)\<rparr>
                       in processing_loop orch a st3)))
      else (st, Exhausted (case best_response st of
                             Some b \<Rightarrow> b
                           | None \<Rightarrow> create_fallback_response orch (heap st a))))"
  by pat_completeness auto
termination
  by (relation "measure (\<lambda>(orch, a, st). max_iterations orch - iteration st)") auto

declare processing_loop.simps [simp del]

definition initial_state :: "(addr \<Rightarrow> QueryContext) \<Rightarrow> loop_state" where
  "initial_state h = \<lparr>heap = h, iteration = 0, best_response = None\<rparr>"

text \<open>\<open>_iterative_processing_loop(context)\<close>, the context being the object at \<open>a\<close>.\<close>

definition iterative_processing_loop ::
  "AgentOrchestrator \<Rightarrow> (addr \<Rightarrow> QueryContext) \<Rightarrow> addr \<Rightarrow> loop_state \<times> loop_exit" where
  "iterative_processing_loop orch h a = processing_loop orch a (initial_state h)"

section \<open>AgentOrchestrator: the entry point\<close>











section \<open>Example objects\<close>

definition example_context :: QueryContext where
  "example_context =
     \<lparr>user_id = ''u1'', thread_id = ''t1'', query = ''q'', language = ''en'',
      query_type = GENERAL_INQUIRY, confidence_score = 1, domain_relevance = 1,
      session_history = [], user_preferences = []\<rparr>"

text \<open>A tool that accepts only non-empty queries and whose \<open>execute\<close> raises.\<close>

definition flaky_tool :: BaseTool where
  "flaky_tool =
     \<lparr>name = ''flaky'', description = ''always raises'', category = ''search'',
      metadata = initial_metadata ''flaky'' ''always raises'' ''search'' 0,
      validate_input = (\<lambda>q ctx. q \<noteq> []),
      execute = (\<lambda>q ctx. Inl ''boom'')\<rparr>"

definition flaky_registry :: ToolRegistry where
  "flaky_registry = fst (register_tool empty_registry flaky_tool)"



text \<open>Two tool objects with the same name and different categories.\<close>

definition lookup_search :: BaseTool where
  "lookup_search =
     \<lparr>name = ''lookup'', description = ''first version'', category = ''search'',
      metadata = initial_metadata ''lookup'' ''first version'' ''search'' 0,
      validate_input = (\<lambda>q ctx. True),
      execute = (\<lambda>q ctx. Inl ''unused'')\<rparr>"

definition lookup_general :: BaseTool where
  "lookup_general =
     \<lparr>name = ''lookup'', description = ''second version'', category = ''general'',
      metadata = initial_metadata ''lookup'' ''second version'' ''general'' 1,
      validate_input = (\<lambda>q ctx. True),
      execute = (\<lambda>q ctx. Inl ''unused'')\<rparr>"

definition reregistered :: ToolRegistry where
  "reregistered =
     fst (register_tool (fst (register_tool empty_registry lookup_search)) lookup_general)"

text \<open>
  The state in which an iteration that does not accept leaves the run, given the
  entries \<open>trs\<close> that its batch produced (lemma \<open>loop_step_continue\<close>).
\<close>

definition next_state ::
  "AgentOrchestrator \<Rightarrow> addr \<Rightarrow> loop_state \<Rightarrow> (string \<times> tool_entry) list \<Rightarrow> loop_state" where
  "next_state orch a st trs =
     (let context = heap st a;
          quality_score = assess_results orch (query context) trs;
          response = synthesize_response orch context trs;
          replace = (case best_response st of None \<Rightarrow> True
                     | Some b \<Rightarrow> quality_score > response_confidence b)
      in st\<lparr>iteration := iteration st + 1,
            best_response := (if replace then Some response else best_response st),
            heap := (heap st)(a := context\<lparr>query := refine_query orch context trs\<rparr>)\<rparr>)"

definition example_heap :: "addr \<Rightarrow> QueryContext" where
  "example_heap = (\<lambda>a. example_context)"

text \<open>
  An orchestrator with an empty registry, default configuration, an assessor that
  always scores 0.1, and a confidence estimate that grows with the refined query
  (0.2 for a query of one character, 0.5 for three, 0.9 otherwise).
\<close>

definition low_quality_orch :: AgentOrchestrator where
  "low_quality_orch =
     \<lparr>tool_registry = empty_registry, max_workers = 5, task_timeout = 30,
      domain_relevance_threshold = 0.7, confidence_threshold = 0.8, max_iterations = 3,
      assess_results = (\<lambda>q trs. 0.1),
      calculate_confidence =
        (\<lambda>q c rs. if length q = 1 then 0.2 else if length q = 3 then 0.5 else 0.9),
      identify_missing_information = (\<lambda>q trs. [''x'']),
      translate_from_english = (\<lambda>t l. t),
      finish_time = (\<lambda>n q. 1)\<rparr>"

text \<open>A working tool under the name that \<open>_select_tools\<close> always asks for.\<close>

definition vector_search_result :: ToolResult where
  "vector_search_result =
     \<lparr>tool_name = ''vector_search'', success = True,
      results = [[(''content'', ''EC2 instance types''), (''url'', ''https://kb/ec2'')]],
      sources = [''https://kb/ec2''], confidence = 0.9, response_time = 0.1,
      error_message = None, result_metadata = None\<rparr>"

definition vector_search_tool :: BaseTool where
  "vector_search_tool =
     \<lparr>name = ''vector_search'', description = ''search cloud services knowledge base'',
      category = ''search'',
      metadata = initial_metadata ''vector_search'' ''search cloud services knowledge base''
                   ''search'' 0,
      validate_input = (\<lambda>q ctx. q \<noteq> []),
      execute = (\<lambda>q ctx. Inr vector_search_result)\<rparr>"

definition search_registry :: ToolRegistry where
  "search_registry = fst (register_tool empty_registry vector_search_tool)"


text \<open>
  A second working tool, and an orchestrator (timeout 30) whose pool finishes the first
  tool at time 1 and the second at time 50.
\<close>

definition rerank_result :: ToolResult where
  "rerank_result =
     \<lparr>tool_name = ''rerank'', success = True,
      results = [[(''content'', ''EC2 instance types'')]],
      sources = [], confidence = 0.8, response_time = 50,
      error_message = None, result_metadata = None\<rparr>"

definition rerank_tool :: BaseTool where
  "rerank_tool =
     \<lparr>name = ''rerank'', description = ''rerank results'', category = ''analysis'',
      metadata = initial_metadata ''rerank'' ''rerank results'' ''analysis'' 0,
      validate_input = (\<lambda>q ctx. q \<noteq> []),
      execute = (\<lambda>q ctx. Inr rerank_result)\<rparr>"

definition slow_registry :: ToolRegistry where
  "slow_registry = fst (register_tool search_registry rerank_tool)"

definition slow_orch :: AgentOrchestrator where
  "slow_orch =
     low_quality_orch\<lparr>tool_registry := slow_registry,
                      finish_time := (\<lambda>n q. if n = ''rerank'' then 50 else 1)\<rparr>"









section \<open>Properties of execute\_tool\<close>

lemma flaky_registry_eval:
  "flaky_registry =
     \<lparr>tools = [(''flaky'', flaky_tool)], tool_categories = [(''search'', [''flaky''])],
      tool_performance = [(''flaky'', fresh_performance)]\<rparr>"
  by (simp add: flaky_registry_def register_tool_def empty_registry_def flaky_tool_def)

text \<open>
  Claim C10. When the tool is registered and its \<open>validate_input\<close> returns false on the
  query, \<open>execute_tool\<close> returns the failed result with the message
  "Input validation failed", response time 0 and confidence 0, and the registry it
  returns is the registry it was given: neither the performance record nor the metadata
  of the tool is touched.
\<close>

theorem execute_tool_validation_failure:
  assumes "map_of (tools reg) tname = Some tool"
    and "\<not> validate_input tool q ctx"
  shows "execute_tool reg tname q ctx rt now =
     (reg, \<lparr>tool_name = tname, success = False, results = [], sources = [], confidence = 0,
            response_time = 0, error_message = Some ''Input validation failed'',
            result_metadata = None\<rparr>)"
  using assms by (simp add: execute_tool_def failed_result_def)

theorem execute_tool_validation_failure_witness:
  "map_of (tools flaky_registry) ''flaky'' = Some flaky_tool
   \<and> \<not> validate_input flaky_tool [] example_context
   \<and> execute_tool flaky_registry ''flaky'' [] example_context 2 5 =
       (flaky_registry,
        \<lparr>tool_name = ''flaky'', success = False, results = [], sources = [], confidence = 0,
         response_time = 0, error_message = Some ''Input validation failed'',
         result_metadata = None\<rparr>)"
proof -
  have r: "map_of (tools flaky_registry) ''flaky'' = Some flaky_tool"
    by (simp add: flaky_registry_eval)
  have v: "\<not> validate_input flaky_tool [] example_context"
    by (simp add: flaky_tool_def)
  show ?thesis
    using r v execute_tool_validation_failure [OF r v, of 2 5] by simp
qed




lemma update_metrics_behaviour [simp]:
  "validate_input (update_metrics tool s rt now) = validate_input tool"
  "execute (update_metrics tool s rt now) = execute tool"
  "name (update_metrics tool s rt now) = name tool"
  "category (update_metrics tool s rt now) = category tool"
  "description (update_metrics tool s rt now) = description tool"
  by (simp_all add: update_metrics_def Let_def)


lemma perf_tracking_tools [simp]:
  "tools (update_performance_tracking reg tname s rt e now) = tools reg"
  by (simp add: update_performance_tracking_def Let_def split: option.splits)






section \<open>The category index\<close>

text \<open>
  Claim C5 at the sequence register (category search), register again under the same
  name (category general), unregister. After the second registration the name is in
  the buckets of both categories although the tool is of category general; after the
  unregistration the tool map is empty and the bucket of category search still holds
  the name.
\<close>

theorem stale_category_entry:
  "tools reregistered = [(''lookup'', lookup_general)]
   \<and> tool_categories reregistered = [(''search'', [''lookup'']), (''general'', [''lookup''])]
   \<and> unregister_tool reregistered ''lookup'' =
       (\<lparr>tools = [], tool_categories = [(''search'', [''lookup''])], tool_performance = []\<rparr>,
        True)"
  by (simp add: reregistered_def register_tool_def unregister_tool_def empty_registry_def
      lookup_search_def lookup_general_def Let_def)

section \<open>The processing loop, one iteration at a time\<close>

lemma loop_step_accept:
  assumes "iteration st < max_iterations orch"
    and "execute_tools_parallel orch (heap st a) (orchestrator_select_tools (heap st a)) = Inr trs"
    and "confidence_threshold orch \<le> assess_results orch (query (heap st a)) trs"
  shows "processing_loop orch a st =
     (st\<lparr>iteration := iteration st + 1\<rparr>, Accepted (synthesize_response orch (heap st a) trs))"
  using assms by (subst processing_loop.simps) (simp add: Let_def)

lemma loop_step_raise:
  assumes "iteration st < max_iterations orch"
    and "execute_tools_parallel orch (heap st a) (orchestrator_select_tools (heap st a)) = Inl e"
  shows "processing_loop orch a st = (st\<lparr>iteration := iteration st + 1\<rparr>, Raised e)"
  using assms by (subst processing_loop.simps) (simp add: Let_def)

lemma loop_exhausted:
  assumes "\<not> iteration st < max_iterations orch"
  shows "processing_loop orch a st =
     (st, Exhausted (case best_response st of Some b \<Rightarrow> b
                     | None \<Rightarrow> create_fallback_response orch (heap st a)))"
  using assms by (subst processing_loop.simps) simp

lemma loop_step_continue:
  assumes "iteration st < max_iterations orch"
    and "execute_tools_parallel orch (heap st a) (orchestrator_select_tools (heap st a)) = Inr trs"
    and "\<not> confidence_threshold orch \<le> assess_results orch (query (heap st a)) trs"
  shows "processing_loop orch a st = processing_loop orch a (next_state orch a st trs)"
  using assms
  by (subst processing_loop.simps) (auto simp add: Let_def next_state_def split: option.splits)

lemma next_state_iteration [simp]: "iteration (next_state orch a st trs) = iteration st + 1"
  by (simp add: next_state_def Let_def)

lemma next_state_heap:
  "heap (next_state orch a st trs) =
     (heap st)(a := (heap st a)\<lparr>query := refine_query orch (heap st a) trs\<rparr>)"
  by (simp add: next_state_def Let_def)



text \<open>Whatever the run does, it changes the store only in the query of the object at \<open>a\<close>.\<close>

lemma loop_frame:
  "processing_loop orch a st = (st', ex) \<Longrightarrow>
     (\<forall>b. b \<noteq> a \<longrightarrow> heap st' b = heap st b)
     \<and> heap st' a = (heap st a)\<lparr>query := query (heap st' a)\<rparr>"
proof (induction "max_iterations orch - iteration st" arbitrary: st rule: less_induct)
  case less
  show ?case
  proof (cases "iteration st < max_iterations orch")
    case False
    with less.prems show ?thesis by (auto simp add: loop_exhausted)
  next
    case it: True
    show ?thesis
    proof (cases "execute_tools_parallel orch (heap st a) (orchestrator_select_tools (heap st a))")
      case (Inl e)
      with it less.prems show ?thesis by (auto simp add: loop_step_raise)
    next
      case (Inr trs)
      show ?thesis
      proof (cases "confidence_threshold orch \<le> assess_results orch (query (heap st a)) trs")
        case True
        with it Inr less.prems show ?thesis by (auto simp add: loop_step_accept)
      next
        case False
        have run: "processing_loop orch a (next_state orch a st trs) = (st', ex)"
          using loop_step_continue [OF it Inr False] less.prems by simp
        have "max_iterations orch - iteration (next_state orch a st trs)
                < max_iterations orch - iteration st"
          using it by simp
        from less.hyps [OF this run] show ?thesis
          by (auto simp add: next_state_def Let_def)
      qed
    qed
  qed
qed

subsection \<open>Two concrete runs\<close>

lemma empty_registry_exec:
  "tool_registry orch = empty_registry \<Longrightarrow> execute_tools_parallel orch ctx ns = Inr []"
  by (simp add: execute_tools_parallel_def get_tool_def empty_registry_def List.map_filter_def)

lemma low_quality_fields [simp]:
  "tool_registry low_quality_orch = empty_registry"
  "max_iterations low_quality_orch = 3"
  "confidence_threshold low_quality_orch = 0.8"
  "assess_results low_quality_orch = (\<lambda>q trs. 0.1)"
  "identify_missing_information low_quality_orch = (\<lambda>q trs. [''x''])"
  by (simp_all add: low_quality_orch_def)

lemma low_quality_confidence [simp]:
  "response_confidence (synthesize_response low_quality_orch ctx []) =
     (if length (query ctx) = 1 then 0.2 else if length (query ctx) = 3 then 0.5 else 0.9)"
  by (simp add: synthesize_response_def low_quality_orch_def Let_def)

lemma low_quality_step:
  "iteration st < 3 \<Longrightarrow>
   processing_loop low_quality_orch a st =
     processing_loop low_quality_orch a (next_state low_quality_orch a st [])"
  by (rule loop_step_continue) (simp_all add: empty_registry_exec)

lemma low_quality_run:
  "iterative_processing_loop low_quality_orch example_heap 0 =
     (\<lparr>heap = example_heap(0 := example_context\<lparr>query := ''q x x x''\<rparr>),
       iteration = 3,
       best_response = Some (synthesize_response low_quality_orch example_context [])\<rparr>,
      Exhausted (synthesize_response low_quality_orch example_context []))"
  unfolding iterative_processing_loop_def
  apply (subst low_quality_step, simp add: initial_state_def)
  apply (subst low_quality_step, simp add: initial_state_def)
  apply (subst low_quality_step, simp add: initial_state_def)
  apply (subst loop_exhausted, simp add: initial_state_def)
  apply (simp add: next_state_def initial_state_def Let_def refine_query_def
      example_context_def example_heap_def)
  done

lemma search_registry_eval:
  "search_registry =
     \<lparr>tools = [(''vector_search'', vector_search_tool)],
      tool_categories = [(''search'', [''vector_search''])],
      tool_performance = [(''vector_search'', fresh_performance)]\<rparr>"
  by (simp add: search_registry_def register_tool_def empty_registry_def vector_search_tool_def)

lemma example_select:
  "orchestrator_select_tools example_context = [''vector_search'', ''web_search'', ''rerank'']"
  by (simp add: orchestrator_select_tools_def example_context_def preference_enabled_def)


section \<open>Properties of the processing loop\<close>

text \<open>
  Claim C3 at a run with the default budget of 3 and threshold 0.8, an assessor that
  scores 0.1 in every iteration, and candidates of confidence 0.2, 0.5 and 0.9 in
  iterations 1, 2 and 3. The loop keeps the first candidate, because it compares the
  quality score (0.1) of the iteration, not the confidence of its candidate, with the
  confidence of the stored response; it returns the candidate of confidence 0.2.
\<close>

theorem best_response_keeps_first_candidate:
  "iterative_processing_loop low_quality_orch example_heap 0 =
     (\<lparr>heap = example_heap(0 := example_context\<lparr>query := ''q x x x''\<rparr>),
       iteration = 3,
       best_response = Some (synthesize_response low_quality_orch example_context [])\<rparr>,
      Exhausted (synthesize_response low_quality_orch example_context []))
   \<and> response_confidence (synthesize_response low_quality_orch example_context []) = 0.2
   \<and> response_confidence
       (synthesize_response low_quality_orch (example_context\<lparr>query := ''q x''\<rparr>) []) = 0.5
   \<and> response_confidence
       (synthesize_response low_quality_orch (example_context\<lparr>query := ''q x x''\<rparr>) []) = 0.9"
  by (simp add: low_quality_run) (simp add: example_context_def)



text \<open>
  Claim C9, as stated, at the run of three iterations above: the context object that
  the caller passed (the object at address 0, with query \<open>q\<close>) is the one the loop
  assigns to; after the run the same object holds the query \<open>q x x x\<close>.
\<close>

theorem context_mutated_in_place_counterexample:
  "query (example_heap 0) = ''q''
   \<and> query (heap (fst (iterative_processing_loop low_quality_orch example_heap 0)) 0)
       = ''q x x x''
   \<and> heap (fst (iterative_processing_loop low_quality_orch example_heap 0)) 0 \<noteq> example_heap 0"
  by (simp add: low_quality_run) (simp add: example_heap_def example_context_def)

text \<open>
  Claim C9, amended. The loop refines the query by assigning to the \<open>query\<close> field of
  the context object it was given: an iteration that does not accept continues with
  that object holding the refined query. Over a whole run, however it ends, only the
  \<open>query\<close> field of that object changes: its other fields, and all other objects, are
  as before.
\<close>

theorem context_only_query_changes:
  "(iteration st < max_iterations orch
      \<and> execute_tools_parallel orch (heap st a) (orchestrator_select_tools (heap st a)) = Inr trs
      \<and> \<not> confidence_threshold orch \<le> assess_results orch (query (heap st a)) trs
    \<longrightarrow> processing_loop orch a st = processing_loop orch a (next_state orch a st trs)
        \<and> heap (next_state orch a st trs) =
            (heap st)(a := (heap st a)\<lparr>query := refine_query orch (heap st a) trs\<rparr>))
   \<and> (processing_loop orch a st = (st', ex)
    \<longrightarrow> (\<forall>b. b \<noteq> a \<longrightarrow> heap st' b = heap st b)
        \<and> heap st' a = (heap st a)\<lparr>query := query (heap st' a)\<rparr>)"
  using loop_step_continue [of st orch a trs] next_state_heap [of orch a st trs]
    loop_frame [of orch a st st' ex]
  by blast

theorem context_only_query_changes_witness:
  "iteration (initial_state example_heap) < max_iterations low_quality_orch
   \<and> execute_tools_parallel low_quality_orch example_context
       (orchestrator_select_tools example_context) = Inr []
   \<and> \<not> confidence_threshold low_quality_orch
         \<le> assess_results low_quality_orch (query example_context) []
   \<and> heap (next_state low_quality_orch 0 (initial_state example_heap) []) 0 =
       example_context\<lparr>query := ''q x''\<rparr>
   \<and> heap (fst (iterative_processing_loop low_quality_orch example_heap 0)) 1 = example_heap 1
   \<and> heap (fst (iterative_processing_loop low_quality_orch example_heap 0)) 0 =
       (example_heap 0)\<lparr>query := ''q x x x''\<rparr>"
proof -
  let ?s0 = "initial_state example_heap"
  let ?s3 = "fst (iterative_processing_loop low_quality_orch example_heap 0)"
  let ?ex = "snd (iterative_processing_loop low_quality_orch example_heap 0)"
  have h1: "iteration ?s0 < max_iterations low_quality_orch"
    by (simp add: initial_state_def)
  have h2: "execute_tools_parallel low_quality_orch (heap ?s0 0)
              (orchestrator_select_tools (heap ?s0 0)) = Inr []"
    by (simp add: empty_registry_exec)
  have h3: "\<not> confidence_threshold low_quality_orch
              \<le> assess_results low_quality_orch (query (heap ?s0 0)) []"
    by simp
  have run: "processing_loop low_quality_orch 0 ?s0 = (?s3, ?ex)"
    by (simp add: iterative_processing_loop_def)
  have q: "query (heap ?s3 0) = ''q x x x''"
    by (simp add: low_quality_run)
  from context_only_query_changes [of ?s0 low_quality_orch 0 "[]" ?s3 ?ex] h1 h2 h3 run
  have step: "heap (next_state low_quality_orch 0 ?s0 []) =
            (heap ?s0)(0 := (heap ?s0 0)\<lparr>query := refine_query low_quality_orch (heap ?s0 0) []\<rparr>)"
    and frame: "\<forall>b. b \<noteq> 0 \<longrightarrow> heap ?s3 b = heap ?s0 b"
       "heap ?s3 0 = (heap ?s0 0)\<lparr>query := query (heap ?s3 0)\<rparr>"
    by blast+
  have a: "heap (next_state low_quality_orch 0 ?s0 []) 0 = example_context\<lparr>query := ''q x''\<rparr>"
    unfolding step
    by (simp add: initial_state_def example_heap_def refine_query_def example_context_def)
  have b: "heap ?s3 1 = example_heap 1"
    using frame(1) by (simp add: initial_state_def)
  have c: "heap ?s3 0 = (example_heap 0)\<lparr>query := ''q x x x''\<rparr>"
    using frame(2) q by (simp add: initial_state_def)
  from h1 h2 h3 a b c show ?thesis
    by (simp add: initial_state_def example_heap_def)
qed

section \<open>Tool selection and parallel execution in the orchestrator\<close>

lemma slow_registry_eval:
  "slow_registry =
     \<lparr>tools = [(''vector_search'', vector_search_tool), (''rerank'', rerank_tool)],
      tool_categories = [(''search'', [''vector_search'']), (''analysis'', [''rerank''])],
      tool_performance =
        [(''vector_search'', fresh_performance), (''rerank'', fresh_performance)]\<rparr>"
  by (simp add: slow_registry_def search_registry_eval register_tool_def rerank_tool_def)

lemma slow_exec:
  "execute_tools_parallel slow_orch example_context [''vector_search'', ''web_search'', ''rerank'']
     = Inl (TimeoutError 1 2)"
  by (simp add: execute_tools_parallel_def slow_orch_def low_quality_orch_def
      slow_registry_eval get_tool_def List.map_filter_simps vector_search_tool_def
      rerank_tool_def Let_def)

text \<open>
  Claim C2 at a batch of two registered tools, the first finishing at time 1 and the
  second at time 50, with the timeout 30: the method raises \<open>TimeoutError\<close> (one of two
  futures unfinished) and returns no result map, so the result of the first tool is
  lost too, and the exception leaves the processing loop. With the timeout 60 the same
  batch returns both results.
\<close>

theorem timeout_discards_batch:
  "task_timeout slow_orch = 30
   \<and> finish_time slow_orch ''vector_search'' (query example_context) = 1
   \<and> finish_time slow_orch ''rerank'' (query example_context) = 50
   \<and> execute_tools_parallel slow_orch example_context [''vector_search'', ''rerank'']
       = Inl (TimeoutError 1 2)
   \<and> execute_tools_parallel (slow_orch\<lparr>task_timeout := 60\<rparr>) example_context
       [''vector_search'', ''rerank'']
       = Inr [(''vector_search'', Completed vector_search_result),
              (''rerank'', Completed rerank_result)]
   \<and> snd (iterative_processing_loop slow_orch example_heap 0) = Raised (TimeoutError 1 2)"
proof -
  have "iteration (initial_state example_heap) < max_iterations slow_orch"
    by (simp add: initial_state_def slow_orch_def low_quality_orch_def)
  moreover have "execute_tools_parallel slow_orch (heap (initial_state example_heap) 0)
       (orchestrator_select_tools (heap (initial_state example_heap) 0))
       = Inl (TimeoutError 1 2)"
    by (simp add: initial_state_def example_heap_def example_select slow_exec)
  ultimately have "snd (iterative_processing_loop slow_orch example_heap 0)
       = Raised (TimeoutError 1 2)"
    by (simp add: iterative_processing_loop_def loop_step_raise)
  moreover have "task_timeout slow_orch = 30
   \<and> finish_time slow_orch ''vector_search'' (query example_context) = 1
   \<and> finish_time slow_orch ''rerank'' (query example_context) = 50
   \<and> execute_tools_parallel slow_orch example_context [''vector_search'', ''rerank'']
       = Inl (TimeoutError 1 2)
   \<and> execute_tools_parallel (slow_orch\<lparr>task_timeout := 60\<rparr>) example_context
       [''vector_search'', ''rerank'']
       = Inr [(''vector_search'', Completed vector_search_result),
              (''rerank'', Completed rerank_result)]"
    by (simp add: execute_tools_parallel_def slow_orch_def low_quality_orch_def
        slow_registry_eval get_tool_def List.map_filter_simps vector_search_tool_def
        rerank_tool_def Let_def)
  ultimately show ?thesis by blast
qed




section \<open>Selection strategies\<close>
















section \<open>Exhaustion, fallback, and the response the caller receives\<close>


















end
